theory Spec2Isabelle
  imports Complex_Main
begin

section \<open>Identity Store (src/pages/index.js, lines 8-28)\<close>

text \<open>
  JavaScript strings are modelled as \<open>string\<close>; \<open>length\<close> is the source's
  \<open>.length\<close>. A Web Storage area is a partial map from keys to strings:
  \<open>getItem\<close> returns \<open>null\<close> (here \<open>None\<close>) for a missing key, \<open>setItem\<close>
  overwrites the key.
\<close>

type_synonym storage = "string \<rightharpoonup> string"

definition getItem :: "storage \<Rightarrow> string \<Rightarrow> string option" where
  "getItem st k = st k"

definition setItem :: "storage \<Rightarrow> string \<Rightarrow> string \<Rightarrow> storage" where
  "setItem st k v = st(k \<mapsto> v)"

text \<open>
  The execution context: \<open>has_window\<close> is \<open>typeof window !== "undefined"\<close>, and
  the two persistence scopes are the per-tab \<open>sessionStorage\<close> and the durable
  \<open>localStorage\<close>.
\<close>

record env =
  has_window :: bool
  sessionStorage :: storage
  localStorage :: storage

text \<open>
  Truthiness of a value that is either \<open>null\<close> or a string: \<open>null\<close> and the empty
  string are falsy.
\<close>

fun truthy_str :: "string option \<Rightarrow> bool" where
  "truthy_str None = False"
| "truthy_str (Some s) = (s \<noteq> [])"

text \<open>
  \<open>x = x && x.length <= 32 ? x : null\<close>: the stored value is kept only when it
  is truthy (neither \<open>null\<close> nor the empty string) and at most 32 characters
  long; otherwise the variable becomes \<open>null\<close>.
\<close>

definition keep_valid :: "string option \<Rightarrow> string option" where
  "keep_valid x =
     (case x of
        None \<Rightarrow> None
      | Some s \<Rightarrow> if truthy_str (Some s) \<and> length s \<le> 32 then Some s else None)"

text \<open>
  \<open>uuidv4().replace(/-/g, "").slice(0, 32)\<close>, as a function of the string that
  \<open>uuidv4()\<close> returns: every hyphen is removed and the first 32 characters are kept.
\<close>

definition strip_hyphens :: "string \<Rightarrow> string" where
  "strip_hyphens u = filter (\<lambda>c. c \<noteq> CHR ''-'') u"

definition fresh_id :: "string \<Rightarrow> string" where
  "fresh_id uuid = take 32 (strip_hyphens uuid)"

text \<open>
  \<open>getSessionId\<close> and \<open>getUserId\<close>. The second argument is the value the
  external \<open>uuidv4()\<close> returns if it is called; the result is the returned
  identifier together with the environment after the call. After \<open>keep_valid\<close>
  the local variable is \<open>null\<close> or a non-empty string, so the test
  \<open>if (!sessionId)\<close> selects exactly the \<open>None\<close> branch.
\<close>

definition getSessionId :: "env \<Rightarrow> string \<Rightarrow> string \<times> env" where
  "getSessionId e uuid =
     (if \<not> has_window e then ([], e)
      else
        case keep_valid (getItem (sessionStorage e) ''sessionId'') of
          None \<Rightarrow>
            let sessionId = fresh_id uuid
            in (sessionId,
                e\<lparr>sessionStorage := setItem (sessionStorage e) ''sessionId'' sessionId\<rparr>)
        | Some sessionId \<Rightarrow> (sessionId, e))"

definition getUserId :: "env \<Rightarrow> string \<Rightarrow> string \<times> env" where
  "getUserId e uuid =
     (if \<not> has_window e then ([], e)
      else
        case keep_valid (getItem (localStorage e) ''userId'') of
          None \<Rightarrow>
            let userId = fresh_id uuid
            in (userId, e\<lparr>localStorage := setItem (localStorage e) ''userId'' userId\<rparr>)
        | Some userId \<Rightarrow> (userId, e))"

text \<open>
  The textual form of a version-4 UUID as the \<open>uuid\<close> package renders it: 36
  characters in five groups of 8, 4, 4, 4 and 12 hexadecimal digits, separated by
  hyphens. The predicate records where the hyphens are and that every other
  character is a lower-case hexadecimal digit.
\<close>

definition hexdigit :: "char \<Rightarrow> bool" where
  "hexdigit c = (c \<in> set ''0123456789abcdef'')"

definition hyphen_positions :: "bool list" where
  "hyphen_positions =
     replicate 8 False @ [True] @ replicate 4 False @ [True] @ replicate 4 False @ [True]
       @ replicate 4 False @ [True] @ replicate 12 False"

definition uuid_format :: "string \<Rightarrow> bool" where
  "uuid_format u =
     (map (\<lambda>c. c = CHR ''-'') u = hyphen_positions
      \<and> list_all (\<lambda>c. c = CHR ''-'' \<or> hexdigit c) u)"

section \<open>JavaScript values (the parsed response body)\<close>

text \<open>
  The values that \<open>res.json()\<close> can deliver and that property reads can yield:
  \<open>Undefined\<close> is the result of reading a missing property (it never occurs in a
  parsed body), an object is its list of key/value pairs in textual order.
\<close>

datatype jsval =
    Undefined
  | Null
  | Bool bool
  | Num real
  | Str string
  | Arr "jsval list"
  | Obj "(string \<times> jsval) list"

text \<open>JavaScript's \<open>ToBoolean\<close>.\<close>

fun truthy :: "jsval \<Rightarrow> bool" where
  "truthy Undefined = False"
| "truthy Null = False"
| "truthy (Bool b) = b"
| "truthy (Num x) = (x \<noteq> 0)"
| "truthy (Str s) = (s \<noteq> [])"
| "truthy (Arr xs) = True"
| "truthy (Obj kvs) = True"

text \<open>
  Reading property \<open>p\<close> of a value, for a name \<open>p\<close> that no built-in prototype
  defines (as \<open>output_data\<close> and \<open>content\<close>). Reading a property of \<open>null\<close> or
  \<open>undefined\<close> throws a TypeError, whose message \<open>tmsg\<close> is chosen by the
  JavaScript engine: \<open>Inl\<close> carries the message of the thrown error. When a key
  occurs twice in a parsed object the last occurrence wins.
\<close>

fun getprop :: "string \<Rightarrow> jsval \<Rightarrow> string \<Rightarrow> string + jsval" where
  "getprop tmsg Undefined p = Inl tmsg"
| "getprop tmsg Null p = Inl tmsg"
| "getprop tmsg (Obj kvs) p =
     (case map_of (rev kvs) p of None \<Rightarrow> Inr Undefined | Some v \<Rightarrow> Inr v)"
| "getprop tmsg v p = Inr Undefined"

section \<open>Request Controller (src/pages/index.js, lines 30-138)\<close>

text \<open>
  \<open>String.prototype.trim\<close> on the characters a \<open>char\<close> can hold: the white space
  and line terminator code units below 256.
\<close>

definition is_space :: "char \<Rightarrow> bool" where
  "is_space c = (of_char c \<in> {9, 10, 11, 12, 13, 32, 160 :: nat})"

definition trim :: "string \<Rightarrow> string" where
  "trim s = rev (dropWhile is_space (rev (dropWhile is_space s)))"

datatype role = User | Agent

record chat_message =
  role :: role
  content :: jsval

record payload_data =
  message :: chat_message

record payload =
  data :: payload_data
  stateful :: bool
  stream :: bool
  user_id :: string
  session_id :: string
  verbose :: bool

text \<open>
  The component's React state. \<open>messageInput\<close> is the source's \<open>message\<close> (the
  text of the input box); \<open>error\<close> is \<open>null\<close> or a string.
\<close>

record state =
  messageInput :: string
  conversation :: "chat_message list"
  error :: "string option"
  isLoading :: bool
  sessionId :: string
  userId :: string

definition initial_state :: state where
  "initial_state =
     \<lparr>messageInput = [], conversation = [], error = None, isLoading = False,
      sessionId = [], userId = []\<rparr>"

text \<open>
  The mount effect (lines 44-46): \<open>setSessionId(getSessionId())\<close> and then
  \<open>setUserId(getUserId())\<close>, each with its own call of \<open>uuidv4()\<close> if needed.
\<close>

definition mount :: "state \<Rightarrow> env \<Rightarrow> string \<Rightarrow> string \<Rightarrow> state \<times> env" where
  "mount st e uuid1 uuid2 =
     (let (sid, e1) = getSessionId e uuid1;
          (uid, e2) = getUserId e1 uuid2
      in (st\<lparr>sessionId := sid, userId := uid\<rparr>, e2))"

text \<open>
  What \<open>submitMessage\<close> does, in program order: state updates, the outbound call
  and the console log. \<open>SetConversation m\<close> is the functional update
  \<open>setConversation((prev) => [...prev, m])\<close>.
\<close>

datatype action =
    SetMessage string
  | SetError "string option"
  | SetConversation chat_message
  | SetIsLoading bool
  | Fetch payload
  | ConsoleError string

fun perform :: "state \<Rightarrow> action \<Rightarrow> state" where
  "perform st (SetMessage m) = st\<lparr>messageInput := m\<rparr>"
| "perform st (SetError e) = st\<lparr>error := e\<rparr>"
| "perform st (SetConversation m) = st\<lparr>conversation := conversation st @ [m]\<rparr>"
| "perform st (SetIsLoading b) = st\<lparr>isLoading := b\<rparr>"
| "perform st (Fetch p) = st"
| "perform st (ConsoleError m) = st"

definition perform_all :: "state \<Rightarrow> action list \<Rightarrow> state" where
  "perform_all st acts = foldl perform st acts"

text \<open>
  \<open>submitMessage\<close> up to its first \<open>await\<close> (lines 80-112): the validation, the
  optimistic append, the payload and the call of \<open>fetch\<close>.
\<close>

definition submitMessage :: "state \<Rightarrow> string \<Rightarrow> action list" where
  "submitMessage st userInput =
     (if trim userInput = [] then []
      else
        let userMessage = \<lparr>role = User, content = Str (trim userInput)\<rparr>;
            payload = \<lparr>data = \<lparr>message = userMessage\<rparr>, stateful = True, stream = False,
                       user_id = userId st, session_id = sessionId st, verbose = False\<rparr>
        in [SetMessage [], SetError None, SetConversation userMessage,
            SetIsLoading True, Fetch payload])"

text \<open>
  What the awaited promises deliver. \<open>fetch\<close> either rejects with an error (its
  message is kept) or resolves to a response; \<open>res.ok\<close> is true exactly for a
  status from 200 to 299; \<open>res.json()\<close> either rejects (\<open>Inl\<close>, with the error's
  message) or resolves to the parsed body.
\<close>

record response =
  status :: nat
  json :: "string + jsval"

definition ok :: "response \<Rightarrow> bool" where
  "ok res = (200 \<le> status res \<and> status res \<le> 299)"

datatype outcome = Rejected string | Resolved response

text \<open>The decimal rendering of the status in the template literal of line 115.\<close>

fun decimal :: "nat \<Rightarrow> string" where
  "decimal n =
     (if n < 10 then [''0123456789'' ! n]
      else decimal (n div 10) @ [''0123456789'' ! (n mod 10)])"

declare decimal.simps [simp del]

definition fallback :: string where
  "fallback = ''No valid response received from agent.''"

text \<open>
  Lines 120-123, with \<open>parsed\<close> for the source's local \<open>data\<close>:
  \<open>data.output_data && data.output_data.content ? data.output_data.content : fallback\<close>.
\<close>

definition agentReply :: "string \<Rightarrow> jsval \<Rightarrow> string + jsval" where
  "agentReply tmsg parsed =
     (case getprop tmsg parsed ''output_data'' of
        Inl m \<Rightarrow> Inl m
      | Inr output_data \<Rightarrow>
          if truthy output_data
          then (case getprop tmsg output_data ''content'' of
                  Inl m \<Rightarrow> Inl m
                | Inr c \<Rightarrow> if truthy c then getprop tmsg output_data ''content''
                           else Inr (Str fallback))
          else Inr (Str fallback))"

text \<open>
  The \<open>catch\<close> block followed by the \<open>finally\<close> block (lines 132-137), for an
  error whose message is \<open>m\<close>.
\<close>

definition catch_finally :: "string \<Rightarrow> action list" where
  "catch_finally m = [ConsoleError m, SetError (Some m), SetIsLoading False]"

text \<open>
  \<open>submitMessage\<close> after \<open>fetch\<close> has settled (lines 114-137). No state is
  updated between the two awaits, so the settlement of \<open>fetch\<close> and of
  \<open>res.json()\<close> is one step.
\<close>

definition submitMessage_resume :: "string \<Rightarrow> outcome \<Rightarrow> action list" where
  "submitMessage_resume tmsg out =
     (case out of
        Rejected m \<Rightarrow> catch_finally m
      | Resolved res \<Rightarrow>
          if \<not> ok res then catch_finally (''Server error: '' @ decimal (status res))
          else (case json res of
                  Inl m \<Rightarrow> catch_finally m
                | Inr parsed \<Rightarrow>
                    (case agentReply tmsg parsed of
                       Inl m \<Rightarrow> catch_finally m
                     | Inr reply \<Rightarrow>
                         let agentMessage = \<lparr>role = Agent, content = reply\<rparr>
                         in [SetConversation agentMessage, SetMessage [],
                             SetIsLoading False])))"

text \<open>
  The component with its submissions in flight. \<open>pending\<close> holds the payload of
  every call of \<open>submitMessage\<close> that is suspended at its \<open>await\<close>, oldest first.
  \<open>Submit\<close> is a call of \<open>submitMessage\<close>; \<open>Settle i out\<close> resumes the \<open>i\<close>-th
  suspended call with the outcome \<open>out\<close>.
\<close>

record component =
  ui :: state
  pending :: "payload list"

datatype event = Submit string | Settle nat outcome

fun fetches :: "action list \<Rightarrow> payload list" where
  "fetches [] = []"
| "fetches (Fetch p # acts) = p # fetches acts"
| "fetches (a # acts) = fetches acts"

fun appends :: "action list \<Rightarrow> chat_message list" where
  "appends [] = []"
| "appends (SetConversation m # acts) = m # appends acts"
| "appends (a # acts) = appends acts"

definition step :: "string \<Rightarrow> component \<Rightarrow> event \<Rightarrow> component" where
  "step tmsg c ev =
     (case ev of
        Submit userInput \<Rightarrow>
          let acts = submitMessage (ui c) userInput
          in \<lparr>ui = perform_all (ui c) acts, pending = pending c @ fetches acts\<rparr>
      | Settle i out \<Rightarrow>
          if i < length (pending c)
          then \<lparr>ui = perform_all (ui c) (submitMessage_resume tmsg out),
                pending = take i (pending c) @ drop (Suc i) (pending c)\<rparr>
          else c)"

definition run :: "string \<Rightarrow> component \<Rightarrow> event list \<Rightarrow> component" where
  "run tmsg c evs = foldl (step tmsg) c evs"

text \<open>
  The caller's discipline of the presentation layer: both submit controls are
  disabled while \<open>isLoading\<close> is true (lines 312 and 402), so \<open>submitMessage\<close> is
  called only in a state where \<open>isLoading\<close> is false.
\<close>

fun disciplined :: "string \<Rightarrow> component \<Rightarrow> event list \<Rightarrow> bool" where
  "disciplined tmsg c [] = True"
| "disciplined tmsg c (Submit userInput # evs) =
     (\<not> isLoading (ui c) \<and> disciplined tmsg (step tmsg c (Submit userInput)) evs)"
| "disciplined tmsg c (Settle i out # evs) =
     disciplined tmsg (step tmsg c (Settle i out)) evs"

section \<open>Notions used to state the properties\<close>

text \<open>
  \<open>field v p\<close> is the value stored under the key \<open>p\<close> when \<open>v\<close> is an object
  that has this key, and \<open>output_data_content\<close> is the field
  \<open>output_data.content\<close> of a parsed body when it is present.
\<close>

fun field :: "jsval \<Rightarrow> string \<Rightarrow> jsval option" where
  "field (Obj kvs) p = map_of (rev kvs) p"
| "field v p = None"

definition output_data_content :: "jsval \<Rightarrow> jsval option" where
  "output_data_content parsed =
     (case field parsed ''output_data'' of
        None \<Rightarrow> None
      | Some output_data \<Rightarrow> field output_data ''content'')"

text \<open>
  The agent reply as the specification words it: the content when it is present and
  not \<open>null\<close>, the fallback text otherwise.
\<close>

definition reply_present_non_null :: "jsval \<Rightarrow> jsval" where
  "reply_present_non_null parsed =
     (case output_data_content parsed of
        None \<Rightarrow> Str fallback
      | Some c \<Rightarrow> if c \<noteq> Null then c else Str fallback)"

text \<open>
  The agent reply with JavaScript truthiness in place of "not \<open>null\<close>": the
  content when it is present and truthy, the fallback text otherwise.
\<close>

definition reply_present_truthy :: "jsval \<Rightarrow> jsval" where
  "reply_present_truthy parsed =
     (case output_data_content parsed of
        None \<Rightarrow> Str fallback
      | Some c \<Rightarrow> if truthy c then c else Str fallback)"


text \<open>
  At most one submission in flight, and \<open>isLoading\<close> true exactly while there is
  one.
\<close>

definition single_flight :: "component \<Rightarrow> bool" where
  "single_flight c = (length (pending c) = (if isLoading (ui c) then 1 else 0))"

section \<open>Properties of the Identity Store\<close>

lemma length_fresh_id: "length (fresh_id uuid) \<le> 32"
  by (simp add: fresh_id_def)

lemma length_strip_hyphens:
  "length (strip_hyphens u) = length (filter Not (map (\<lambda>c. c = CHR ''-'') u))"
  by (induction u) (simp_all add: strip_hyphens_def)

lemma uuid_format_strip: "uuid_format u \<Longrightarrow> length (strip_hyphens u) = 32"
  by (simp add: length_strip_hyphens uuid_format_def hyphen_positions_def)

lemma uuid_format_fresh: "uuid_format u \<Longrightarrow> length (fresh_id u) = 32"
  by (simp add: fresh_id_def uuid_format_strip)

lemma keep_valid_Some:
  "keep_valid x = Some s \<Longrightarrow> x = Some s \<and> s \<noteq> [] \<and> length s \<le> 32"
  by (auto simp: keep_valid_def split: option.splits if_splits)

lemma keep_valid_fresh:
  "uuid_format u \<Longrightarrow> keep_valid (Some (fresh_id u)) = Some (fresh_id u)"
  using uuid_format_fresh [of u] by (auto simp: keep_valid_def)

lemma uuid_format_example: "uuid_format ''9b1deb4d-3b7d-4bad-9bdd-2b0d7b3dcb6d''"
  by (simp add: uuid_format_def hyphen_positions_def hexdigit_def eval_nat_numeral)

text \<open>
  Claim C7. Identity Store reads are idempotent within a scope: a second call of
  \<open>getSessionId\<close> (resp. \<open>getUserId\<close>) on the storage left by the first call
  returns the identifier the first call returned, and writes nothing. When the
  first call has to generate the identifier, \<open>uuidv4()\<close> is taken to return a
  string of the UUID format.
\<close>

theorem identity_reads_idempotent:
  assumes "uuid_format u1"
  shows "getSessionId (snd (getSessionId e u1)) u2
           = (fst (getSessionId e u1), snd (getSessionId e u1))
       \<and> getUserId (snd (getUserId e u1)) u2
           = (fst (getUserId e u1), snd (getUserId e u1))"
proof
  show "getSessionId (snd (getSessionId e u1)) u2
          = (fst (getSessionId e u1), snd (getSessionId e u1))"
    using keep_valid_fresh [OF assms]
    by (auto simp: getSessionId_def getItem_def setItem_def Let_def split: option.splits)
  show "getUserId (snd (getUserId e u1)) u2
          = (fst (getUserId e u1), snd (getUserId e u1))"
    using keep_valid_fresh [OF assms]
    by (auto simp: getUserId_def getItem_def setItem_def Let_def split: option.splits)
qed

theorem identity_reads_idempotent_witness:
  "uuid_format ''9b1deb4d-3b7d-4bad-9bdd-2b0d7b3dcb6d''
   \<and> fst (getSessionId
            (snd (getSessionId
                    \<lparr>has_window = True, sessionStorage = Map.empty, localStorage = Map.empty\<rparr>
                    ''9b1deb4d-3b7d-4bad-9bdd-2b0d7b3dcb6d''))
            ''1c2a6f5e-0d3b-4c8a-8f7e-6b5a4d3c2b1a'')
       = ''9b1deb4d3b7d4bad9bdd2b0d7b3dcb6d''"
proof -
  have h: "uuid_format ''9b1deb4d-3b7d-4bad-9bdd-2b0d7b3dcb6d''"
    by (rule uuid_format_example)
  have v: "fst (getSessionId
                 \<lparr>has_window = True, sessionStorage = Map.empty, localStorage = Map.empty\<rparr>
                 ''9b1deb4d-3b7d-4bad-9bdd-2b0d7b3dcb6d'')
             = ''9b1deb4d3b7d4bad9bdd2b0d7b3dcb6d''"
    by (simp add: getSessionId_def keep_valid_def getItem_def fresh_id_def strip_hyphens_def
          Let_def)
  show ?thesis
    using h v
      identity_reads_idempotent [OF h,
        of "\<lparr>has_window = True, sessionStorage = Map.empty, localStorage = Map.empty\<rparr>"
           "''1c2a6f5e-0d3b-4c8a-8f7e-6b5a4d3c2b1a''"]
    by simp
qed

text \<open>
  Claim C8. In a client context, if the identifier stored for a scope is longer
  than 32 characters, the next read of that scope generates an identifier from
  \<open>uuidv4()\<close>, of length at most 32, stores it in that scope and returns it.
\<close>

theorem overlong_identifier_regenerated:
  assumes "has_window e"
  shows "(\<forall>s. getItem (sessionStorage e) ''sessionId'' = Some s \<and> 32 < length s \<longrightarrow>
            getSessionId e uuid =
              (fresh_id uuid,
               e\<lparr>sessionStorage := setItem (sessionStorage e) ''sessionId'' (fresh_id uuid)\<rparr>)
            \<and> getItem (sessionStorage (snd (getSessionId e uuid))) ''sessionId''
                = Some (fresh_id uuid)
            \<and> length (fst (getSessionId e uuid)) \<le> 32)
       \<and> (\<forall>s. getItem (localStorage e) ''userId'' = Some s \<and> 32 < length s \<longrightarrow>
            getUserId e uuid =
              (fresh_id uuid,
               e\<lparr>localStorage := setItem (localStorage e) ''userId'' (fresh_id uuid)\<rparr>)
            \<and> getItem (localStorage (snd (getUserId e uuid))) ''userId''
                = Some (fresh_id uuid)
            \<and> length (fst (getUserId e uuid)) \<le> 32)"
  using assms length_fresh_id [of uuid]
  by (auto simp: getSessionId_def getUserId_def keep_valid_def getItem_def setItem_def Let_def)

theorem overlong_identifier_regenerated_witness:
  "has_window
     \<lparr>has_window = True,
      sessionStorage = [''sessionId'' \<mapsto> ''0123456789abcdef0123456789abcdef0''],
      localStorage = Map.empty\<rparr>
   \<and> 32 < length ''0123456789abcdef0123456789abcdef0''
   \<and> fst (getSessionId
            \<lparr>has_window = True,
             sessionStorage = [''sessionId'' \<mapsto> ''0123456789abcdef0123456789abcdef0''],
             localStorage = Map.empty\<rparr>
            ''9b1deb4d-3b7d-4bad-9bdd-2b0d7b3dcb6d'')
       = ''9b1deb4d3b7d4bad9bdd2b0d7b3dcb6d''
   \<and> getItem
        (sessionStorage (snd (getSessionId
            \<lparr>has_window = True,
             sessionStorage = [''sessionId'' \<mapsto> ''0123456789abcdef0123456789abcdef0''],
             localStorage = Map.empty\<rparr>
            ''9b1deb4d-3b7d-4bad-9bdd-2b0d7b3dcb6d'')))
        ''sessionId''
       = Some ''9b1deb4d3b7d4bad9bdd2b0d7b3dcb6d''"
proof -
  have h: "has_window
     \<lparr>has_window = True,
      sessionStorage = [''sessionId'' \<mapsto> ''0123456789abcdef0123456789abcdef0''],
      localStorage = Map.empty\<rparr>"
    by simp
  show ?thesis
    using overlong_identifier_regenerated [OF h, of "''9b1deb4d-3b7d-4bad-9bdd-2b0d7b3dcb6d''"]
    by (simp add: getItem_def setItem_def fresh_id_def strip_hyphens_def)
qed

text \<open>
  Claim C9. Outside a client execution context (no \<open>window\<close>), \<open>getSessionId\<close>
  and \<open>getUserId\<close> return the empty string and leave both storage scopes as they
  are.
\<close>

theorem no_window_no_effect:
  assumes "\<not> has_window e"
  shows "getSessionId e uuid = ([], e) \<and> getUserId e uuid = ([], e)"
  using assms by (simp add: getSessionId_def getUserId_def)

theorem no_window_no_effect_witness:
  "\<not> has_window
       \<lparr>has_window = False, sessionStorage = [''sessionId'' \<mapsto> ''abc''],
        localStorage = Map.empty\<rparr>
   \<and> fst (getSessionId
            \<lparr>has_window = False, sessionStorage = [''sessionId'' \<mapsto> ''abc''],
             localStorage = Map.empty\<rparr>
            ''9b1deb4d-3b7d-4bad-9bdd-2b0d7b3dcb6d'') = []
   \<and> fst (getUserId
            \<lparr>has_window = False, sessionStorage = [''sessionId'' \<mapsto> ''abc''],
             localStorage = Map.empty\<rparr>
            ''9b1deb4d-3b7d-4bad-9bdd-2b0d7b3dcb6d'') = []"
proof -
  have h: "\<not> has_window
       \<lparr>has_window = False, sessionStorage = [''sessionId'' \<mapsto> ''abc''],
        localStorage = Map.empty\<rparr>"
    by simp
  show ?thesis
    using no_window_no_effect [OF h, of "''9b1deb4d-3b7d-4bad-9bdd-2b0d7b3dcb6d''"]
    by simp
qed

text \<open>
  Claim C10. In a client context, with \<open>uuidv4()\<close> returning a string of the UUID
  format, \<open>getSessionId\<close> and \<open>getUserId\<close> return a non-empty identifier of at
  most 32 characters; a stored empty string is not returned but replaced by a
  generated identifier of exactly 32 characters, which is stored.
\<close>

theorem identifier_nonempty_bounded:
  assumes "has_window e" and "uuid_format uuid"
  shows "fst (getSessionId e uuid) \<noteq> [] \<and> length (fst (getSessionId e uuid)) \<le> 32
       \<and> (getItem (sessionStorage e) ''sessionId'' = Some [] \<longrightarrow>
            fst (getSessionId e uuid) = fresh_id uuid \<and> length (fresh_id uuid) = 32
            \<and> getItem (sessionStorage (snd (getSessionId e uuid))) ''sessionId''
                = Some (fresh_id uuid))
       \<and> fst (getUserId e uuid) \<noteq> [] \<and> length (fst (getUserId e uuid)) \<le> 32
       \<and> (getItem (localStorage e) ''userId'' = Some [] \<longrightarrow>
            fst (getUserId e uuid) = fresh_id uuid \<and> length (fresh_id uuid) = 32
            \<and> getItem (localStorage (snd (getUserId e uuid))) ''userId''
                = Some (fresh_id uuid))"
proof -
  have f: "length (fresh_id uuid) = 32"
    by (rule uuid_format_fresh [OF assms(2)])
  then have ne: "fresh_id uuid \<noteq> []"
    by auto
  have s: "fst (getSessionId e uuid) \<noteq> [] \<and> length (fst (getSessionId e uuid)) \<le> 32"
    using assms(1) f ne
    by (auto simp: getSessionId_def Let_def split: option.splits dest: keep_valid_Some)
  have u: "fst (getUserId e uuid) \<noteq> [] \<and> length (fst (getUserId e uuid)) \<le> 32"
    using assms(1) f ne
    by (auto simp: getUserId_def Let_def split: option.splits dest: keep_valid_Some)
  have s0: "getItem (sessionStorage e) ''sessionId'' = Some [] \<longrightarrow>
            fst (getSessionId e uuid) = fresh_id uuid \<and> length (fresh_id uuid) = 32
            \<and> getItem (sessionStorage (snd (getSessionId e uuid))) ''sessionId''
                = Some (fresh_id uuid)"
    using assms(1) f
    by (auto simp: getSessionId_def keep_valid_def getItem_def setItem_def Let_def)
  have u0: "getItem (localStorage e) ''userId'' = Some [] \<longrightarrow>
            fst (getUserId e uuid) = fresh_id uuid \<and> length (fresh_id uuid) = 32
            \<and> getItem (localStorage (snd (getUserId e uuid))) ''userId''
                = Some (fresh_id uuid)"
    using assms(1) f
    by (auto simp: getUserId_def keep_valid_def getItem_def setItem_def Let_def)
  from s u s0 u0 show ?thesis
    by blast
qed

theorem identifier_nonempty_bounded_witness:
  "has_window
     \<lparr>has_window = True, sessionStorage = [''sessionId'' \<mapsto> []],
      localStorage = Map.empty\<rparr>
   \<and> uuid_format ''9b1deb4d-3b7d-4bad-9bdd-2b0d7b3dcb6d''
   \<and> getItem (sessionStorage
        \<lparr>has_window = True, sessionStorage = [''sessionId'' \<mapsto> []],
         localStorage = Map.empty\<rparr>) ''sessionId'' = Some []
   \<and> fst (getSessionId
            \<lparr>has_window = True, sessionStorage = [''sessionId'' \<mapsto> []],
             localStorage = Map.empty\<rparr>
            ''9b1deb4d-3b7d-4bad-9bdd-2b0d7b3dcb6d'')
       = ''9b1deb4d3b7d4bad9bdd2b0d7b3dcb6d''
   \<and> length ''9b1deb4d3b7d4bad9bdd2b0d7b3dcb6d'' = 32"
proof -
  have h1: "has_window
     \<lparr>has_window = True, sessionStorage = [''sessionId'' \<mapsto> []],
      localStorage = Map.empty\<rparr>"
    by simp
  have h2: "uuid_format ''9b1deb4d-3b7d-4bad-9bdd-2b0d7b3dcb6d''"
    by (rule uuid_format_example)
  show ?thesis
    using h2 identifier_nonempty_bounded [OF h1 h2]
    by (simp add: getItem_def fresh_id_def strip_hyphens_def)
qed


section \<open>Properties of the Request Controller\<close>

text \<open>
  After the mount effect in a client context, the identifiers held in the
  component state are the ones stored in the two scopes.
\<close>

lemma getSessionId_stored:
  assumes "has_window e" and "uuid_format u"
  shows "getItem (sessionStorage (snd (getSessionId e u))) ''sessionId''
           = Some (fst (getSessionId e u))
       \<and> localStorage (snd (getSessionId e u)) = localStorage e
       \<and> has_window (snd (getSessionId e u))"
  using assms
  by (auto simp: getSessionId_def getItem_def setItem_def Let_def
        split: option.splits dest: keep_valid_Some)

lemma getUserId_stored:
  assumes "has_window e" and "uuid_format u"
  shows "getItem (localStorage (snd (getUserId e u))) ''userId''
           = Some (fst (getUserId e u))
       \<and> sessionStorage (snd (getUserId e u)) = sessionStorage e"
  using assms
  by (auto simp: getUserId_def getItem_def setItem_def Let_def
        split: option.splits dest: keep_valid_Some)

lemma mount_identifiers_stored:
  assumes "has_window e" and "uuid_format u1" and "uuid_format u2"
  shows "getItem (sessionStorage (snd (mount st e u1 u2))) ''sessionId''
           = Some (sessionId (fst (mount st e u1 u2)))
       \<and> getItem (localStorage (snd (mount st e u1 u2))) ''userId''
           = Some (userId (fst (mount st e u1 u2)))"
proof -
  obtain sid e1 where s: "getSessionId e u1 = (sid, e1)"
    by (cases "getSessionId e u1")
  obtain uid e2 where u: "getUserId e1 u2 = (uid, e2)"
    by (cases "getUserId e1 u2")
  from getSessionId_stored [OF assms(1,2)] s
  have a: "getItem (sessionStorage e1) ''sessionId'' = Some sid" and w: "has_window e1"
    by simp_all
  from getUserId_stored [OF w assms(3)] u
  have b: "getItem (localStorage e2) ''userId'' = Some uid"
    and c: "sessionStorage e2 = sessionStorage e1"
    by simp_all
  from s u a b c show ?thesis
    by (simp add: mount_def)
qed


lemma decimal_nonempty: "decimal n \<noteq> []"
  by (subst decimal.simps) simp

lemma trim_hello: "trim ''  hello '' = ''hello''"
  by (simp add: trim_def is_space_def)

lemma resume_shape:
  "(\<exists>m. submitMessage_resume tmsg out = catch_finally m)
   \<or> (\<exists>r. submitMessage_resume tmsg out =
            [SetConversation \<lparr>role = Agent, content = r\<rparr>, SetMessage [], SetIsLoading False])"
  by (auto simp: submitMessage_resume_def Let_def split: outcome.splits sum.splits)

lemma resume_not_loading: "\<not> isLoading (perform_all st (submitMessage_resume tmsg out))"
  using resume_shape [of tmsg out]
  by (auto simp: catch_finally_def perform_all_def)

lemma agentReply_Null: "agentReply tmsg Null = Inl tmsg"
  by (simp add: agentReply_def)

lemma agentReply_eq:
  assumes "parsed \<noteq> Null" and "parsed \<noteq> Undefined"
  shows "agentReply tmsg parsed = Inr (reply_present_truthy parsed)"
proof (cases parsed)
  case (Obj kvs)
  show ?thesis
  proof (cases "map_of (rev kvs) ''output_data''")
    case None
    with Obj show ?thesis
      by (simp add: agentReply_def reply_present_truthy_def output_data_content_def)
  next
    case (Some od)
    with Obj show ?thesis
      by (cases od)
         (auto simp: agentReply_def reply_present_truthy_def output_data_content_def
            split: option.splits)
  qed
qed (use assms in \<open>simp_all add: agentReply_def reply_present_truthy_def output_data_content_def\<close>)

text \<open>
  Claim C5. For a blank or whitespace-only input (one that \<open>trim\<close> empties),
  \<open>submitMessage\<close> does nothing: it performs no action at all, so the
  conversation, \<open>isLoading\<close> and \<open>error\<close> are as before and no network call is
  issued; the component, with its calls in flight, is unchanged.
\<close>

theorem blank_input_noop:
  assumes "trim userInput = []"
  shows "submitMessage st userInput = []
       \<and> perform_all st (submitMessage st userInput) = st
       \<and> step tmsg c (Submit userInput) = c"
  using assms by (simp add: submitMessage_def perform_all_def step_def)

theorem blank_input_noop_witness:
  "trim ''   '' = []
   \<and> submitMessage initial_state ''   '' = []
   \<and> step ''TypeError'' \<lparr>ui = initial_state, pending = []\<rparr> (Submit ''   '')
       = \<lparr>ui = initial_state, pending = []\<rparr>"
proof -
  have h: "trim ''   '' = []"
    by (simp add: trim_def is_space_def)
  show ?thesis
    using h blank_input_noop [OF h, of initial_state "''TypeError''"
                                "\<lparr>ui = initial_state, pending = []\<rparr>"]
    by simp
qed



text \<open>
  Claim C6. For a validated submission, \<open>isLoading\<close> is true once the call is in
  flight, and it is false after the resumption whatever \<open>fetch\<close> and
  \<open>res.json()\<close> deliver (success, rejection, a status that is not 2xx, a body
  that is not JSON, a body that is \<open>null\<close>): resetting the flag is the last
  action on every path, and the resumption never sets it.
\<close>

theorem isLoading_reset_on_every_path:
  assumes "trim userInput \<noteq> []"
  shows "isLoading (perform_all st (submitMessage st userInput))
       \<and> \<not> isLoading (perform_all st' (submitMessage_resume tmsg out))
       \<and> last (submitMessage_resume tmsg out) = SetIsLoading False
       \<and> SetIsLoading True \<notin> set (submitMessage_resume tmsg out)"
proof -
  have a: "isLoading (perform_all st (submitMessage st userInput))"
    using assms by (simp add: submitMessage_def perform_all_def Let_def)
  have b: "last (submitMessage_resume tmsg out) = SetIsLoading False
         \<and> SetIsLoading True \<notin> set (submitMessage_resume tmsg out)"
    using resume_shape [of tmsg out] by (auto simp: catch_finally_def)
  from a b resume_not_loading [of st' tmsg out] show ?thesis
    by blast
qed

theorem isLoading_reset_on_every_path_witness:
  "trim ''  hello '' \<noteq> []
   \<and> isLoading (perform_all initial_state (submitMessage initial_state ''  hello ''))
   \<and> \<not> isLoading
         (perform_all (perform_all initial_state (submitMessage initial_state ''  hello ''))
            (submitMessage_resume ''TypeError''
               (Resolved \<lparr>status = 200, json = Inl ''Unexpected end of JSON input''\<rparr>)))"
proof -
  have h: "trim ''  hello '' \<noteq> []"
    by (simp add: trim_hello)
  show ?thesis
    using h
      isLoading_reset_on_every_path [OF h, of initial_state
        "perform_all initial_state (submitMessage initial_state ''  hello '')"
        "''TypeError''"
        "Resolved \<lparr>status = 200, json = Inl ''Unexpected end of JSON input''\<rparr>"]
    by simp
qed

text \<open>
  Claim C3, amended. When a validated submission fails, by a transport failure
  (\<open>fetch\<close> rejects) or by a response whose status is not 2xx, no agent message is
  appended, the user message stays in the conversation and \<open>isLoading\<close> ends
  false. For a status that is not 2xx, \<open>error\<close> is set to the non-empty text
  \<open>Server error:\<close> followed by the status. For a transport failure, \<open>error\<close> is
  set to exactly the message of the error that \<open>fetch\<close> rejected with, whatever
  that message is: the controller adds no text of its own.
\<close>

theorem failure_keeps_user_message:
  assumes "trim userInput \<noteq> []"
  shows "(\<forall>m.
            appends (submitMessage_resume tmsg (Rejected m)) = []
          \<and> conversation (perform_all (perform_all st (submitMessage st userInput))
                            (submitMessage_resume tmsg (Rejected m)))
              = conversation st @ [\<lparr>role = User, content = Str (trim userInput)\<rparr>]
          \<and> error (perform_all (perform_all st (submitMessage st userInput))
                     (submitMessage_resume tmsg (Rejected m))) = Some m
          \<and> \<not> isLoading (perform_all (perform_all st (submitMessage st userInput))
                            (submitMessage_resume tmsg (Rejected m))))
       \<and> (\<forall>res. \<not> ok res \<longrightarrow>
            appends (submitMessage_resume tmsg (Resolved res)) = []
          \<and> conversation (perform_all (perform_all st (submitMessage st userInput))
                            (submitMessage_resume tmsg (Resolved res)))
              = conversation st @ [\<lparr>role = User, content = Str (trim userInput)\<rparr>]
          \<and> error (perform_all (perform_all st (submitMessage st userInput))
                     (submitMessage_resume tmsg (Resolved res)))
              = Some (''Server error: '' @ decimal (status res))
          \<and> ''Server error: '' @ decimal (status res) \<noteq> []
          \<and> \<not> isLoading (perform_all (perform_all st (submitMessage st userInput))
                            (submitMessage_resume tmsg (Resolved res))))"
  using assms
  by (simp add: submitMessage_def submitMessage_resume_def catch_finally_def perform_all_def
        Let_def)

theorem failure_keeps_user_message_witness:
  "trim ''  hello '' \<noteq> []
   \<and> \<not> ok \<lparr>status = 500, json = Inl ''Unexpected end of JSON input''\<rparr>
   \<and> conversation
        (perform_all (perform_all initial_state (submitMessage initial_state ''  hello ''))
           (submitMessage_resume ''TypeError''
              (Resolved \<lparr>status = 500, json = Inl ''Unexpected end of JSON input''\<rparr>)))
       = [\<lparr>role = User, content = Str ''hello''\<rparr>]
   \<and> error
        (perform_all (perform_all initial_state (submitMessage initial_state ''  hello ''))
           (submitMessage_resume ''TypeError''
              (Resolved \<lparr>status = 500, json = Inl ''Unexpected end of JSON input''\<rparr>)))
       = Some ''Server error: 500''
   \<and> error
        (perform_all (perform_all initial_state (submitMessage initial_state ''  hello ''))
           (submitMessage_resume ''TypeError'' (Rejected ''Failed to fetch'')))
       = Some ''Failed to fetch''"
proof -
  have h: "trim ''  hello '' \<noteq> []"
    by (simp add: trim_hello)
  have k: "\<not> ok \<lparr>status = 500, json = Inl ''Unexpected end of JSON input''\<rparr>"
    by (simp add: ok_def)
  have d: "decimal 500 = ''500''"
    by (simp add: decimal.simps)
  have c: "conversation initial_state = []"
    by (simp add: initial_state_def)
  show ?thesis
    using h k failure_keeps_user_message [OF h, of "''TypeError''" initial_state]
    by (simp add: trim_hello d c)
qed

text \<open>
  The wording of claim C3 fails on the code for a transport failure: when \<open>fetch\<close>
  rejects with an error whose message is empty, \<open>error\<close> is set to the empty
  string, since line 134 stores \<open>err.message\<close> as it is.
\<close>

theorem transport_failure_empty_message:
  "trim ''  hello '' \<noteq> []
   \<and> error
        (perform_all (perform_all initial_state (submitMessage initial_state ''  hello ''))
           (submitMessage_resume ''TypeError'' (Rejected [])))
       = Some []
   \<and> appends (submitMessage_resume ''TypeError'' (Rejected [])) = []"
  by (simp add: trim_hello submitMessage_def submitMessage_resume_def catch_finally_def
        perform_all_def initial_state_def Let_def)

text \<open>
  Claim C2, amended. On a 2xx response whose body parses to a value other than
  \<open>null\<close>, exactly one agent message is appended; its content is
  \<open>output_data.content\<close> when that field is present and truthy (not \<open>null\<close>,
  \<open>false\<close>, \<open>0\<close> or the empty string) and the fallback text otherwise. On a 2xx
  response whose body is not JSON or is \<open>null\<close>, no agent message is appended and
  \<open>error\<close> is set.
\<close>

theorem agent_reply_truthy_or_fallback:
  assumes "ok res"
  shows "(\<forall>parsed. json res = Inr parsed \<and> parsed \<noteq> Null \<and> parsed \<noteq> Undefined \<longrightarrow>
            appends (submitMessage_resume tmsg (Resolved res))
              = [\<lparr>role = Agent, content = reply_present_truthy parsed\<rparr>]
            \<and> conversation (perform_all st (submitMessage_resume tmsg (Resolved res)))
              = conversation st @ [\<lparr>role = Agent, content = reply_present_truthy parsed\<rparr>])
       \<and> (\<forall>m. json res = Inl m \<longrightarrow>
            appends (submitMessage_resume tmsg (Resolved res)) = []
            \<and> error (perform_all st (submitMessage_resume tmsg (Resolved res))) = Some m)
       \<and> (json res = Inr Null \<longrightarrow>
            appends (submitMessage_resume tmsg (Resolved res)) = []
            \<and> error (perform_all st (submitMessage_resume tmsg (Resolved res))) = Some tmsg)"
  using assms
  by (auto simp: submitMessage_resume_def agentReply_eq agentReply_Null catch_finally_def
        perform_all_def Let_def)

theorem agent_reply_truthy_or_fallback_witness:
  "ok \<lparr>status = 200, json = Inr (Obj [(''output_data'', Obj [(''content'', Str ''hi there'')])])\<rparr>
   \<and> appends (submitMessage_resume ''TypeError''
        (Resolved \<lparr>status = 200,
                   json = Inr (Obj [(''output_data'', Obj [(''content'', Str ''hi there'')])])\<rparr>))
       = [\<lparr>role = Agent, content = Str ''hi there''\<rparr>]"
proof -
  have h: "ok \<lparr>status = 200,
               json = Inr (Obj [(''output_data'', Obj [(''content'', Str ''hi there'')])])\<rparr>"
    by (simp add: ok_def)
  have r: "reply_present_truthy (Obj [(''output_data'', Obj [(''content'', Str ''hi there'')])])
             = Str ''hi there''"
    by (simp add: reply_present_truthy_def output_data_content_def)
  show ?thesis
    using h agent_reply_truthy_or_fallback [OF h, of "''TypeError''" initial_state]
    by (simp add: r)
qed

text \<open>
  The wording of claim C2 fails on the code in two places. For the 2xx body
  \<open>{"output_data": {"content": ""}}\<close> the content is present and is not
  \<open>null\<close>, and the appended agent message carries the fallback text. For the 2xx
  body \<open>null\<close>, and for a 2xx body that is not JSON, no agent message is appended.
\<close>

theorem empty_content_gets_fallback:
  "ok \<lparr>status = 200, json = Inr (Obj [(''output_data'', Obj [(''content'', Str [])])])\<rparr>
   \<and> output_data_content (Obj [(''output_data'', Obj [(''content'', Str [])])]) = Some (Str [])
   \<and> Str [] \<noteq> Null
   \<and> reply_present_non_null (Obj [(''output_data'', Obj [(''content'', Str [])])]) = Str []
   \<and> appends (submitMessage_resume ''TypeError''
        (Resolved \<lparr>status = 200,
                   json = Inr (Obj [(''output_data'', Obj [(''content'', Str [])])])\<rparr>))
       = [\<lparr>role = Agent, content = Str ''No valid response received from agent.''\<rparr>]
   \<and> ok \<lparr>status = 200, json = Inr Null\<rparr>
   \<and> appends (submitMessage_resume ''TypeError'' (Resolved \<lparr>status = 200, json = Inr Null\<rparr>))
       = []
   \<and> appends (submitMessage_resume ''TypeError''
        (Resolved \<lparr>status = 200, json = Inl ''Unexpected end of JSON input''\<rparr>))
       = []"
  by (simp add: ok_def output_data_content_def reply_present_non_null_def
        submitMessage_resume_def agentReply_def fallback_def catch_finally_def)

lemma run_Nil: "run tmsg c [] = c"
  by (simp add: run_def)

lemma run_Cons: "run tmsg c (ev # evs) = run tmsg (step tmsg c ev) evs"
  by (simp add: run_def)

lemma disciplined_append:
  "disciplined tmsg c (xs @ ys)
     \<longleftrightarrow> disciplined tmsg c xs \<and> disciplined tmsg (run tmsg c xs) ys"
proof (induction xs arbitrary: c)
  case Nil
  show ?case by (simp add: run_Nil)
next
  case (Cons ev xs)
  show ?case
    by (cases ev) (simp_all add: Cons.IH run_Cons)
qed

lemma step_submit_single_flight:
  assumes "single_flight c" and "\<not> isLoading (ui c)"
  shows "single_flight (step tmsg c (Submit userInput))"
  using assms
  by (simp add: single_flight_def step_def submitMessage_def perform_all_def Let_def)

lemma step_settle_single_flight:
  assumes "single_flight c"
  shows "single_flight (step tmsg c (Settle i out))"
proof (cases "i < length (pending c)")
  case False
  with assms show ?thesis by (simp add: step_def)
next
  case True
  with assms have "length (pending c) = 1" and "i = 0"
    by (auto simp: single_flight_def split: if_splits)
  then show ?thesis
    using resume_not_loading [of "ui c" tmsg out]
    by (simp add: single_flight_def step_def)
qed

lemma run_single_flight:
  "single_flight c \<Longrightarrow> disciplined tmsg c evs \<Longrightarrow> single_flight (run tmsg c evs)"
proof (induction evs arbitrary: c)
  case Nil
  then show ?case by (simp add: run_Nil)
next
  case (Cons ev evs)
  show ?case
  proof (cases ev)
    case (Submit userInput)
    with Cons.prems have "single_flight (step tmsg c ev)"
      and "disciplined tmsg (step tmsg c ev) evs"
      by (simp_all add: step_submit_single_flight)
    then show ?thesis by (simp add: run_Cons Cons.IH)
  next
    case (Settle i out)
    with Cons.prems have "single_flight (step tmsg c ev)"
      and "disciplined tmsg (step tmsg c ev) evs"
      by (simp_all add: step_settle_single_flight)
    then show ?thesis by (simp add: run_Cons Cons.IH)
  qed
qed

text \<open>
  Claim C1, amended. \<open>submitMessage\<close> has no guard of its own against a call
  while another one is in flight. When the caller invokes it only in states where
  \<open>isLoading\<close> is false, as the presentation layer does by disabling its submit
  controls, then at every point of the run at most one submission is in flight, and
  every call of \<open>submitMessage\<close> happens when all earlier submissions have settled.
\<close>

theorem single_flight_under_caller_discipline:
  assumes "single_flight c" and "disciplined tmsg c evs"
  shows "\<forall>n \<le> length evs.
           length (pending (run tmsg c (take n evs))) \<le> 1
         \<and> (\<forall>userInput. n < length evs \<and> evs ! n = Submit userInput \<longrightarrow>
               pending (run tmsg c (take n evs)) = [])"
proof (intro allI impI)
  fix n assume n: "n \<le> length evs"
  have "disciplined tmsg c (take n evs @ drop n evs)"
    using assms(2) by simp
  then have d: "disciplined tmsg c (take n evs)"
    and d': "disciplined tmsg (run tmsg c (take n evs)) (drop n evs)"
    by (simp_all only: disciplined_append)
  have sf: "single_flight (run tmsg c (take n evs))"
    by (rule run_single_flight [OF assms(1) d])
  then have le: "length (pending (run tmsg c (take n evs))) \<le> 1"
    by (simp add: single_flight_def split: if_splits)
  have "pending (run tmsg c (take n evs)) = []"
    if "n < length evs" and "evs ! n = Submit userInput" for userInput
  proof -
    from that have "drop n evs = Submit userInput # drop (Suc n) evs"
      by (simp add: Cons_nth_drop_Suc [symmetric])
    with d' have "\<not> isLoading (ui (run tmsg c (take n evs)))"
      by simp
    with sf show ?thesis
      by (simp add: single_flight_def)
  qed
  with le show "length (pending (run tmsg c (take n evs))) \<le> 1
         \<and> (\<forall>userInput. n < length evs \<and> evs ! n = Submit userInput \<longrightarrow>
               pending (run tmsg c (take n evs)) = [])"
    by blast
qed

theorem single_flight_under_caller_discipline_witness:
  "single_flight \<lparr>ui = initial_state, pending = []\<rparr>
   \<and> disciplined ''TypeError'' \<lparr>ui = initial_state, pending = []\<rparr>
        [Submit ''a'', Settle 0 (Rejected ''Failed to fetch''), Submit ''b'']
   \<and> length (pending (run ''TypeError'' \<lparr>ui = initial_state, pending = []\<rparr>
        [Submit ''a'', Settle 0 (Rejected ''Failed to fetch''), Submit ''b''])) \<le> 1"
proof -
  have h1: "single_flight \<lparr>ui = initial_state, pending = []\<rparr>"
    by (simp add: single_flight_def initial_state_def)
  have h2: "disciplined ''TypeError'' \<lparr>ui = initial_state, pending = []\<rparr>
              [Submit ''a'', Settle 0 (Rejected ''Failed to fetch''), Submit ''b'']"
    by (simp add: step_def submitMessage_def submitMessage_resume_def catch_finally_def
          perform_all_def initial_state_def trim_def is_space_def Let_def)
  show ?thesis
    using h1 h2 single_flight_under_caller_discipline [OF h1 h2, rule_format, of 3]
    by simp
qed

text \<open>
  The wording of claim C1 fails on the code: two calls of \<open>submitMessage\<close> with
  no settlement between them put two submissions in flight, and the second user
  message is appended while the first submission is unresolved.
\<close>

theorem controller_admits_overlapping_submissions:
  "length (pending (run ''TypeError'' \<lparr>ui = initial_state, pending = []\<rparr>
                     [Submit ''a'', Submit ''b''])) = 2
   \<and> conversation (ui (run ''TypeError'' \<lparr>ui = initial_state, pending = []\<rparr>
                     [Submit ''a'', Submit ''b'']))
       = [\<lparr>role = User, content = Str ''a''\<rparr>, \<lparr>role = User, content = Str ''b''\<rparr>]
   \<and> conversation (ui (run ''TypeError'' \<lparr>ui = initial_state, pending = []\<rparr>
                     [Submit ''a'', Submit ''b'',
                      Settle 0 (Resolved \<lparr>status = 200,
                        json = Inr (Obj [(''output_data'', Obj [(''content'', Str ''A'')])])\<rparr>)]))
       = [\<lparr>role = User, content = Str ''a''\<rparr>, \<lparr>role = User, content = Str ''b''\<rparr>,
          \<lparr>role = Agent, content = Str ''A''\<rparr>]"
  by (simp add: run_def step_def submitMessage_def submitMessage_resume_def agentReply_def
        ok_def perform_all_def initial_state_def trim_def is_space_def Let_def)

end
